theory Spec2Isabelle
  imports Main "HOL-Library.Word"
begin

unbundle bit_operations_syntax

section \<open>The virtio watchdog driver, drivers/watchdog/virtio_wdt.c\<close>

type_synonym u8 = "8 word"
type_synonym u16 = "16 word"
type_synonym u32 = "32 word"
type_synonym addr = nat

subsection \<open>Constants\<close>

definition VIRTIO_WATCHDOG_HEARTBEAT_TIMEOUT :: u32 where
  "VIRTIO_WATCHDOG_HEARTBEAT_TIMEOUT = 30"

definition VIRTIO_WATCHDOG_HEARTBEAT_TIMEOUT_MIN :: u32 where
  "VIRTIO_WATCHDOG_HEARTBEAT_TIMEOUT_MIN = 1"

definition VIRTIO_WATCHDOG_HEARTBEAT_TIMEOUT_MAX :: u32 where
  "VIRTIO_WATCHDOG_HEARTBEAT_TIMEOUT_MAX = 600"

text \<open>
  Modelled from the spec: the event type tag HEARTBEAT. The header of the tags,
  linux/virtio_wdt.h, is not among the sources; the spec gives HEARTBEAT = 0,
  ENABLE = 1, DISABLE = 2.
\<close>

definition VIRTIO_WATCHDOG_HEARTBEAT :: u16 where
  "VIRTIO_WATCHDOG_HEARTBEAT = 0"

text \<open>Modelled from the spec: the event type tag ENABLE, 1.\<close>

definition VIRTIO_WATCHDOG_ENABLE :: u16 where
  "VIRTIO_WATCHDOG_ENABLE = 1"

text \<open>Modelled from the spec: the event type tag DISABLE, 2.\<close>

definition VIRTIO_WATCHDOG_DISABLE :: u16 where
  "VIRTIO_WATCHDOG_DISABLE = 2"

text \<open>
  The error numbers the driver returns, negated. Their header (errno-base.h) is not
  among the sources; these are its values. The driver only tests a result against 0.
\<close>

definition ENOMEM :: int where
  "ENOMEM = 12"

definition ENODEV :: int where
  "ENODEV = 19"

definition EINVAL :: int where
  "EINVAL = 22"

definition ENOSPC :: int where
  "ENOSPC = 28"

subsection \<open>The device and the transport queue\<close>

text \<open>
  What the driver reads and writes of \<open>struct virtio_device\<close>: the negotiated
  VIRTIO_F_VERSION_1 feature bit, whether \<open>config->get\<close> is set, and the \<open>timeout\<close>
  field of the device's configuration space. \<open>big_endian_cpu\<close> is not a field of the C
  structure: it is the byte order of the processor the driver is compiled for, which the
  byte-order conversions depend on.
\<close>

record virtio_device =
  version_1 :: bool
  config_get :: bool
  config_timeout :: u32
  big_endian_cpu :: bool

text \<open>
  Modelled from the spec: the transport queue (the virtqueue of the virtio core, which is
  not among the sources), with the memory its buffers lie in. A buffer is queued by its
  address, not copied. \<open>avail\<close> holds the buffers submitted and not yet consumed by the
  remote side, oldest first: the outstanding, unacknowledged messages. \<open>used\<close> holds the
  buffers the remote side has returned and the driver has not yet reclaimed. \<open>kicks\<close>
  counts the notifications sent. The queue is bounded: it has the one slot the spec
  speaks of ("single-slot queue") and \<open>more_slots\<close> further ones, as many as the device
  gives its ring; a buffer holds its slot until the driver reclaims it. \<open>mem\<close> gives the
  bytes that now lie at an address, and \<open>seen\<close> lists what the remote side has read,
  buffer by buffer, each at the moment it was consumed: the bytes on the wire.
\<close>

record virtqueue =
  avail :: "addr list"
  used :: "addr list"
  kicks :: nat
  more_slots :: nat
  mem :: "addr \<Rightarrow> u8 list"
  seen :: "u8 list list"

definition empty_vq :: "nat \<Rightarrow> virtqueue" where
  "empty_vq m =
     \<lparr>avail = [], used = [], kicks = 0, more_slots = m, mem = (\<lambda>_. []), seen = []\<rparr>"

definition slots :: "virtqueue \<Rightarrow> nat" where
  "slots q = Suc (more_slots q)"

definition in_flight :: "virtqueue \<Rightarrow> nat" where
  "in_flight q = length (avail q) + length (used q)"

text \<open>
  Modelled from the spec: \<open>virtqueue_add_outbuf\<close> is the first half of \<open>submit\<close>,
  which "enqueues the message's wire bytes as a single outbound buffer". The queue is
  bounded: with every slot taken nothing is enqueued and an error comes back. The
  driver drops the value the call returns.
\<close>

definition virtqueue_add_outbuf :: "virtqueue \<Rightarrow> addr \<Rightarrow> int \<times> virtqueue" where
  "virtqueue_add_outbuf q a =
     (if in_flight q < slots q then (0, q\<lparr>avail := avail q @ [a]\<rparr>) else (- ENOSPC, q))"

text \<open>
  Modelled from the spec: \<open>virtqueue_kick\<close> is the second half of \<open>submit\<close>, which
  "immediately notifies the remote side that work is pending" and does not block.
\<close>

definition virtqueue_kick :: "virtqueue \<Rightarrow> virtqueue" where
  "virtqueue_kick q = q\<lparr>kicks := Suc (kicks q)\<rparr>"

text \<open>
  Modelled from the spec: \<open>try_reclaim\<close> is \<open>virtqueue_get_buf\<close>, a "non-blocking check
  of whether a previously submitted buffer has been returned". \<open>None\<close> is the NULL
  result; otherwise the oldest returned buffer is taken off the queue and its slot is
  free again. The token that comes back in C is the session itself for every buffer, so
  it is not represented.
\<close>

definition virtqueue_get_buf :: "virtqueue \<Rightarrow> virtqueue option" where
  "virtqueue_get_buf q = (case used q of [] \<Rightarrow> None | b # bs \<Rightarrow> Some (q\<lparr>used := bs\<rparr>))"

text \<open>
  The remote side. One step of it consumes the \<open>n\<close> oldest outstanding buffers (fewer
  when fewer are outstanding): it reads the bytes that lie at each buffer's address at
  that moment, returns the buffers, and raises the queue's callback, which is
  \<open>handle_event\<close>: it wakes whoever sleeps on \<open>evt_acked\<close>. What the remote side does
  while a caller is blocked is a list of such steps, after which it stays silent.
\<close>

type_synonym host = "nat list"

definition host_consume :: "nat \<Rightarrow> virtqueue \<Rightarrow> virtqueue" where
  "host_consume n q =
     q\<lparr>avail := drop n (avail q),
       used := used q @ take n (avail q),
       seen := seen q @ map (mem q) (take n (avail q))\<rparr>"

text \<open>
  Modelled from the spec: \<open>wait_event(evt_acked, virtqueue_get_buf(vq, &len))\<close>, the
  "blocking wait with no timeout" whose wake predicate is "\<open>try_reclaim()\<close> returns true".
  The predicate is tried first; while it fails the caller sleeps until the next step of
  the remote side wakes it. \<open>None\<close> is the caller blocked for ever.
\<close>

fun wait_event :: "virtqueue \<Rightarrow> host \<Rightarrow> (virtqueue \<times> host) option" where
  "wait_event q [] = (case virtqueue_get_buf q of Some q' \<Rightarrow> Some (q', []) | None \<Rightarrow> None)"
| "wait_event q (n # h) =
     (case virtqueue_get_buf q of
        Some q' \<Rightarrow> Some (q', n # h)
      | None \<Rightarrow> wait_event (host_consume n q) h)"

subsection \<open>The wire form of an event\<close>

definition swab16 :: "u16 \<Rightarrow> u16" where
  "swab16 x = push_bit 8 x OR drop_bit 8 x"

text \<open>
  Modelled from the spec: \<open>cpu_to_virtio16\<close> (linux/virtio_config.h, not among the
  sources) gives the value whose bytes in memory are in the device's agreed order: little
  endian for a device with VIRTIO_F_VERSION_1. The spec says nothing of a device without
  the feature; there the value is taken unconverted, and \<open>virtwdt_probe\<close> refuses such a
  device.
\<close>

definition cpu_to_virtio16 :: "virtio_device \<Rightarrow> u16 \<Rightarrow> u16" where
  "cpu_to_virtio16 dev x = (if version_1 dev \<and> big_endian_cpu dev then swab16 x else x)"

text \<open>The two bytes of a 16-bit object in memory, lowest address first.\<close>

definition memory_bytes16 :: "bool \<Rightarrow> u16 \<Rightarrow> u8 list" where
  "memory_bytes16 big_endian x =
     (if big_endian then [ucast (drop_bit 8 x), ucast x] else [ucast x, ucast (drop_bit 8 x)])"

text \<open>
  \<open>struct virtio_watchdog_event\<close> as \<open>send_event\<close> initialises it: the bytes in
  memory of its one field, \<open>type\<close>, which holds \<open>cpu_to_virtio16(vwdt->vdev, type)\<close>.
\<close>

definition virtio_watchdog_event :: "virtio_device \<Rightarrow> u16 \<Rightarrow> u8 list" where
  "virtio_watchdog_event dev type = memory_bytes16 (big_endian_cpu dev) (cpu_to_virtio16 dev type)"

text \<open>The little-endian bytes of a 16-bit value: low byte, then high byte.\<close>

definition le16_bytes :: "u16 \<Rightarrow> u8 list" where
  "le16_bytes x = [ucast x, ucast (drop_bit 8 x)]"

subsection \<open>The session\<close>

text \<open>
  The fields of \<open>struct watchdog_device\<close> that the driver sets: the two bounds, the
  timeout, and the three status bits behind \<open>watchdog_set_nowayout\<close>,
  \<open>watchdog_stop_on_reboot\<close> and \<open>watchdog_stop_on_unregister\<close>; and
  \<open>max_hw_heartbeat_ms\<close>, which the driver leaves at the 0 of \<open>kzalloc\<close> and the
  watchdog core reads when it judges a timeout.
\<close>

record watchdog_device =
  min_timeout :: u32
  max_timeout :: u32
  wdd_timeout :: u32
  max_hw_heartbeat_ms :: u32
  wdd_nowayout :: bool
  stop_on_reboot :: bool
  stop_on_unregister :: bool

text \<open>
  \<open>struct virtio_wdt\<close>. The device is held by value. \<open>pdev\<close> and \<open>lock\<close> are left out:
  no function of the driver reads, initialises, takes or releases either. \<open>evt_acked\<close> is
  the wait queue; its effect is in \<open>wait_event\<close>.
\<close>

record virtio_wdt =
  vdev :: virtio_device
  wdd :: watchdog_device
  vq :: virtqueue
  timeout :: u32

subsection \<open>send_event and the four operations\<close>

text \<open>
  The event \<open>evt\<close> is a local variable of \<open>send_event\<close>, and \<open>sg_init_one\<close> hands its
  address to the queue. \<open>evt_addr\<close> is that address: the place on the stack where the
  frame of \<open>send_event\<close> puts \<open>evt\<close>, the same for calls that come down the same path.
  Once \<open>send_event\<close> has returned the place is free, and whatever runs next writes
  over it.
\<close>

definition evt_addr :: addr where
  "evt_addr = 0"

text \<open>
  \<open>send_event\<close>: initialise \<open>evt\<close> on the stack, add its address as one outbound
  buffer (the result of the call is dropped), kick, and wait for a buffer to come back
  unless the type is HEARTBEAT. The result is the session and what is left of the remote
  side's steps, or \<open>None\<close> when the wait never ends.
\<close>

definition send_event :: "virtio_wdt \<Rightarrow> u16 \<Rightarrow> host \<Rightarrow> (virtio_wdt \<times> host) option" where
  "send_event vwdt type h =
     (let q0 = (vq vwdt)\<lparr>mem := (mem (vq vwdt))
                  (evt_addr := virtio_watchdog_event (vdev vwdt) type)\<rparr>;
          q1 = snd (virtqueue_add_outbuf q0 evt_addr);
          q2 = virtqueue_kick q1
      in if type \<noteq> VIRTIO_WATCHDOG_HEARTBEAT
         then (case wait_event q2 h of
                 None \<Rightarrow> None
               | Some (q3, h') \<Rightarrow> Some (vwdt\<lparr>vq := q3\<rparr>, h'))
         else Some (vwdt\<lparr>vq := q2\<rparr>, h))"

text \<open>
  The queue as \<open>send_event\<close> leaves it ahead of any wait: \<open>evt\<close> written, its address
  added if a slot is free, and the kick.
\<close>

definition submitted :: "virtio_wdt \<Rightarrow> u16 \<Rightarrow> virtqueue" where
  "submitted vwdt type =
     virtqueue_kick (snd (virtqueue_add_outbuf
       ((vq vwdt)\<lparr>mem := (mem (vq vwdt))(evt_addr := virtio_watchdog_event (vdev vwdt) type)\<rparr>)
       evt_addr))"

definition virtwdt_ping :: "virtio_wdt \<Rightarrow> host \<Rightarrow> (int \<times> virtio_wdt \<times> host) option" where
  "virtwdt_ping vwdt h =
     (case send_event vwdt VIRTIO_WATCHDOG_HEARTBEAT h of
        None \<Rightarrow> None
      | Some (vwdt', h') \<Rightarrow> Some (0, vwdt', h'))"

definition virtwdt_start :: "virtio_wdt \<Rightarrow> host \<Rightarrow> (int \<times> virtio_wdt \<times> host) option" where
  "virtwdt_start vwdt h =
     (case send_event vwdt VIRTIO_WATCHDOG_ENABLE h of
        None \<Rightarrow> None
      | Some (vwdt', h') \<Rightarrow> Some (0, vwdt', h'))"

definition virtwdt_stop :: "virtio_wdt \<Rightarrow> host \<Rightarrow> (int \<times> virtio_wdt \<times> host) option" where
  "virtwdt_stop vwdt h =
     (case send_event vwdt VIRTIO_WATCHDOG_DISABLE h of
        None \<Rightarrow> None
      | Some (vwdt', h') \<Rightarrow> Some (0, vwdt', h'))"

text \<open>
  Modelled from the spec: \<open>virtio_cwrite\<close> is the "direct read/write of a timeout field"
  of the configuration channel, "independent of the message queue".
\<close>

definition virtio_cwrite_timeout :: "virtio_device \<Rightarrow> u32 \<Rightarrow> virtio_device" where
  "virtio_cwrite_timeout dev v = dev\<lparr>config_timeout := v\<rparr>"

definition virtwdt_set_timeout :: "virtio_wdt \<Rightarrow> u32 \<Rightarrow> int \<times> virtio_wdt" where
  "virtwdt_set_timeout vwdt new_timeout =
     (0, vwdt\<lparr>vdev := virtio_cwrite_timeout (vdev vwdt) new_timeout\<rparr>)"

subsection \<open>Attaching to a device: virtwdt_probe\<close>

text \<open>
  What the rest of the kernel decides during one call of \<open>virtwdt_probe\<close>: whether
  \<open>kzalloc\<close> returns memory, whether \<open>virtio_find_single_vq\<close> returns a queue or an
  error pointer (\<open>Some err\<close>, with \<open>err\<close> the value \<open>PTR_ERR\<close> extracts from it), what
  \<open>watchdog_register_device\<close> returns, and the two module parameters. The parameter
  \<open>timeout\<close> is an \<open>int\<close> in C and reaches \<open>watchdog_init_timeout\<close> converted to
  \<open>unsigned int\<close>; it is given here as converted. \<open>vq_more_slots\<close> is the size of
  the ring the device gives the queue, less one.
\<close>

record probe_env =
  kzalloc_ok :: bool
  find_vq_err :: "int option"
  vq_more_slots :: nat
  register_err :: int
  param_timeout :: u32
  param_nowayout :: bool

text \<open>
  The resources \<open>virtwdt_probe\<close> acquires and releases are written to a log, in the
  order of the calls: \<open>kzalloc\<close> that returned memory, \<open>virtio_find_single_vq\<close> that
  returned a queue, \<open>watchdog_register_device\<close> that returned 0, \<open>virtio_device_ready\<close>,
  \<open>virtio_reset_device\<close>, \<open>del_vqs\<close> and \<open>kfree\<close>.
\<close>

datatype action =
    Alloc_session
  | Create_queue
  | Register_watchdog
  | Device_ready
  | Reset_device
  | Destroy_queue
  | Free_session






text \<open>
  \<open>virtwdt_init_vq\<close>: the error read out of the failed queue pointer is assigned to
  \<open>err\<close> and never used; the function returns \<open>-ENOMEM\<close>.
\<close>

definition virtwdt_init_vq :: "probe_env \<Rightarrow> virtio_wdt \<Rightarrow> int \<times> virtio_wdt \<times> action list" where
  "virtwdt_init_vq env vwdt =
     (case find_vq_err env of
        Some err \<Rightarrow> (- ENOMEM, vwdt, [])
      | None \<Rightarrow> (0, vwdt\<lparr>vq := empty_vq (vq_more_slots env)\<rparr>, [Create_queue]))"

text \<open>
  \<open>watchdog_init_timeout\<close> belongs to the watchdog core (watchdog_core.c and
  linux/watchdog.h), which is not among the sources. The spec words it as a clamp; that
  reading is \<open>spec_default_timeout\<close> below. The function itself does not clamp: it
  takes a parameter that is not 0 and that \<open>watchdog_timeout_invalid\<close> lets pass, and
  otherwise leaves \<open>wdd.timeout\<close> as the driver has set it. It is written here as the
  watchdog core has it, for the NULL device argument the driver passes, which skips the
  device-tree property; the driver drops the value it returns.
\<close>

definition watchdog_check_min_max_timeout :: "watchdog_device \<Rightarrow> watchdog_device" where
  "watchdog_check_min_max_timeout w =
     (if max_hw_heartbeat_ms w = 0 \<and> max_timeout w < min_timeout w
      then w\<lparr>min_timeout := 0, max_timeout := 0\<rparr> else w)"

definition watchdog_timeout_invalid :: "watchdog_device \<Rightarrow> u32 \<Rightarrow> bool" where
  "watchdog_timeout_invalid w t =
     (4294967 < t \<or> t < min_timeout w \<or>
      (max_hw_heartbeat_ms w = 0 \<and> max_timeout w \<noteq> 0 \<and> max_timeout w < t))"

definition watchdog_init_timeout :: "watchdog_device \<Rightarrow> u32 \<Rightarrow> watchdog_device" where
  "watchdog_init_timeout w timeout_parm =
     (let w' = watchdog_check_min_max_timeout w
      in if timeout_parm \<noteq> 0 \<and> \<not> watchdog_timeout_invalid w' timeout_parm
         then w'\<lparr>wdd_timeout := timeout_parm\<rparr>
         else w')"

text \<open>
  Modelled from the spec: the "configuration-time default resolution" as the spec words
  it, which "clamps any externally supplied default to this same range, falling back to
  30 if none given". A parameter of 0 is none given.
\<close>

definition spec_default_timeout :: "u32 \<Rightarrow> u32" where
  "spec_default_timeout timeout_parm =
     (if timeout_parm = 0 then VIRTIO_WATCHDOG_HEARTBEAT_TIMEOUT
      else max VIRTIO_WATCHDOG_HEARTBEAT_TIMEOUT_MIN
             (min VIRTIO_WATCHDOG_HEARTBEAT_TIMEOUT_MAX timeout_parm))"

text \<open>
  Modelled from the spec: \<open>watchdog_set_nowayout\<close> sets the "disable-once-started
  latch" when the module parameter asks for it.
\<close>

definition watchdog_set_nowayout :: "watchdog_device \<Rightarrow> bool \<Rightarrow> watchdog_device" where
  "watchdog_set_nowayout w nowayout = (if nowayout then w\<lparr>wdd_nowayout := True\<rparr> else w)"

text \<open>
  \<open>watchdog_stop_on_reboot\<close> and \<open>watchdog_stop_on_unregister\<close> belong to the watchdog
  core as well. The spec does not describe them; each is taken to set the status bit it
  is named after, and nothing below depends on either.
\<close>

definition watchdog_stop_on_reboot :: "watchdog_device \<Rightarrow> watchdog_device" where
  "watchdog_stop_on_reboot w = w\<lparr>stop_on_reboot := True\<rparr>"

definition watchdog_stop_on_unregister :: "watchdog_device \<Rightarrow> watchdog_device" where
  "watchdog_stop_on_unregister w = w\<lparr>stop_on_unregister := True\<rparr>"

text \<open>
  The session as \<open>kzalloc\<close> returns it: every field zero. The queue pointer is NULL
  until \<open>virtwdt_init_vq\<close> sets it; the record holds an empty queue in its place, and the
  log says whether a queue exists. The device pointer is set on line 168.
\<close>

definition kzalloc_virtio_wdt :: "virtio_device \<Rightarrow> virtio_wdt" where
  "kzalloc_virtio_wdt dev =
     \<lparr>vdev = dev,
      wdd = \<lparr>min_timeout = 0, max_timeout = 0, wdd_timeout = 0, max_hw_heartbeat_ms = 0,
             wdd_nowayout = False, stop_on_reboot = False, stop_on_unregister = False\<rparr>,
      vq = empty_vq 0,
      timeout = 0\<rparr>"

text \<open>
  The result of \<open>virtwdt_probe\<close>: the value returned, the log, whether \<open>vdev->priv\<close>
  has been set to a non-NULL pointer, and the session when the attach succeeded.
\<close>

record probe_result =
  ret :: int
  log :: "action list"
  priv_set :: bool
  session :: "virtio_wdt option"

definition virtwdt_probe :: "probe_env \<Rightarrow> virtio_device \<Rightarrow> probe_result" where
  "virtwdt_probe env dev =
     (if \<not> version_1 dev then
        \<lparr>ret = - ENODEV, log = [], priv_set = False, session = None\<rparr>
      else if \<not> config_get dev then
        \<lparr>ret = - EINVAL, log = [], priv_set = False, session = None\<rparr>
      else if \<not> kzalloc_ok env then
        \<lparr>ret = - ENOMEM, log = [], priv_set = False, session = None\<rparr>
      else
        (let vwdt0 = (kzalloc_virtio_wdt dev)\<lparr>timeout := VIRTIO_WATCHDOG_HEARTBEAT_TIMEOUT\<rparr>
         in case virtwdt_init_vq env vwdt0 of (err, vwdt1, l) \<Rightarrow>
           if err \<noteq> 0 then
             \<lparr>ret = err, log = Alloc_session # l @ [Free_session],
              priv_set = True, session = None\<rparr>
           else
             (let w0 = (wdd vwdt1)\<lparr>min_timeout := VIRTIO_WATCHDOG_HEARTBEAT_TIMEOUT_MIN,
                                    max_timeout := VIRTIO_WATCHDOG_HEARTBEAT_TIMEOUT_MAX,
                                    wdd_timeout := VIRTIO_WATCHDOG_HEARTBEAT_TIMEOUT\<rparr>;
                  w1 = watchdog_init_timeout w0 (param_timeout env);
                  w2 = watchdog_set_nowayout w1 (param_nowayout env);
                  w3 = watchdog_stop_on_reboot w2;
                  w4 = watchdog_stop_on_unregister w3;
                  vwdt2 = vwdt1\<lparr>wdd := w4\<rparr>;
                  err2 = register_err env
              in if err2 \<noteq> 0 then
                   \<lparr>ret = err2,
                    log = Alloc_session # l @ [Reset_device, Destroy_queue, Free_session],
                    priv_set = True, session = None\<rparr>
                 else
                   \<lparr>ret = 0, log = Alloc_session # l @ [Register_watchdog, Device_ready],
                    priv_set = True, session = Some vwdt2\<rparr>)))"

subsection \<open>Sequences of calls\<close>

text \<open>
  What happens to an attached session, in order: a call of one of the four operations
  of \<open>virtwdt_ops\<close>, a step of the remote side between two calls, or other code
  running between two calls and leaving its bytes on the stack where \<open>evt\<close> was.
  \<open>run_events\<close> performs them one after the other; it is \<open>None\<close> when a call never
  returns.
\<close>

datatype event =
    Call_start
  | Call_stop
  | Call_ping
  | Call_set_timeout u32
  | Host_consumes nat
  | Stack_reused "u8 list"

fun run_event :: "event \<Rightarrow> virtio_wdt \<Rightarrow> host \<Rightarrow> (virtio_wdt \<times> host) option" where
  "run_event Call_start vwdt h = map_option snd (virtwdt_start vwdt h)"
| "run_event Call_stop vwdt h = map_option snd (virtwdt_stop vwdt h)"
| "run_event Call_ping vwdt h = map_option snd (virtwdt_ping vwdt h)"
| "run_event (Call_set_timeout t) vwdt h = Some (snd (virtwdt_set_timeout vwdt t), h)"
| "run_event (Host_consumes n) vwdt h = Some (vwdt\<lparr>vq := host_consume n (vq vwdt)\<rparr>, h)"
| "run_event (Stack_reused bytes) vwdt h =
     Some (vwdt\<lparr>vq := (vq vwdt)\<lparr>mem := (mem (vq vwdt))(evt_addr := bytes)\<rparr>\<rparr>, h)"

fun run_events :: "event list \<Rightarrow> virtio_wdt \<Rightarrow> host \<Rightarrow> (virtio_wdt \<times> host) option" where
  "run_events [] vwdt h = Some (vwdt, h)"
| "run_events (e # es) vwdt h =
     (case run_event e vwdt h of
        None \<Rightarrow> None
      | Some (vwdt', h') \<Rightarrow> run_events es vwdt' h')"

text \<open>The number of messages outstanding on the transport: submitted and not yet consumed.\<close>

definition outstanding :: "virtio_wdt \<Rightarrow> nat" where
  "outstanding vwdt = length (avail (vq vwdt))"

text \<open>The bytes that now lie in the outstanding buffers, oldest first.\<close>

definition outstanding_bytes :: "virtqueue \<Rightarrow> u8 list list" where
  "outstanding_bytes q = map (mem q) (avail q)"

text \<open>
  A little-endian device on either kind of processor, and a kernel that grants
  everything, with a ring of two slots.
\<close>

definition example_device :: "bool \<Rightarrow> virtio_device" where
  "example_device be =
     \<lparr>version_1 = True, config_get = True, config_timeout = 0, big_endian_cpu = be\<rparr>"

definition example_env :: probe_env where
  "example_env =
     \<lparr>kzalloc_ok = True, find_vq_err = None, vq_more_slots = 1, register_err = 0,
      param_timeout = 0, param_nowayout = False\<rparr>"

text \<open>The session that \<open>virtwdt_probe\<close> builds from them on a little-endian processor.\<close>

definition example_session :: virtio_wdt where
  "example_session =
     \<lparr>vdev = example_device False,
      wdd = \<lparr>min_timeout = 1, max_timeout = 600, wdd_timeout = 30, max_hw_heartbeat_ms = 0,
             wdd_nowayout = False, stop_on_reboot = True, stop_on_unregister = True\<rparr>,
      vq = empty_vq 1,
      timeout = 30\<rparr>"

section \<open>Properties\<close>

subsection \<open>Auxiliary facts\<close>

lemmas probe_defs = virtwdt_probe_def virtwdt_init_vq_def kzalloc_virtio_wdt_def
  watchdog_init_timeout_def watchdog_check_min_max_timeout_def watchdog_timeout_invalid_def
  watchdog_set_nowayout_def watchdog_stop_on_reboot_def
  watchdog_stop_on_unregister_def VIRTIO_WATCHDOG_HEARTBEAT_TIMEOUT_def
  VIRTIO_WATCHDOG_HEARTBEAT_TIMEOUT_MIN_def VIRTIO_WATCHDOG_HEARTBEAT_TIMEOUT_MAX_def

lemmas example_defs = example_session_def example_device_def example_env_def empty_vq_def

lemmas queue_defs = virtqueue_add_outbuf_def virtqueue_kick_def virtqueue_get_buf_def
  host_consume_def in_flight_def slots_def

lemma example_probe:
  "virtwdt_probe example_env (example_device be) =
     \<lparr>ret = 0, log = [Alloc_session, Create_queue, Register_watchdog, Device_ready],
      priv_set = True, session = Some (example_session\<lparr>vdev := example_device be\<rparr>)\<rparr>"
  by (simp add: probe_defs example_env_def example_device_def example_session_def Let_def)

lemma example_probe_le:
  "session (virtwdt_probe example_env (example_device False)) = Some example_session"
  by (simp add: example_probe) (simp add: example_session_def)

lemma swab16_low: "(ucast (swab16 x) :: u8) = ucast (drop_bit 8 x)"
  unfolding swab16_def
  by (rule bit_word_eqI) (auto simp add: bit_simps)

lemma swab16_high: "(ucast (drop_bit 8 (swab16 x)) :: u8) = ucast x"
  unfolding swab16_def
  by (rule bit_word_eqI) (auto simp add: bit_simps)

lemma virtio_watchdog_event_le:
  "version_1 dev \<Longrightarrow> virtio_watchdog_event dev type = le16_bytes type"
  by (simp add: virtio_watchdog_event_def cpu_to_virtio16_def memory_bytes16_def le16_bytes_def
      swab16_low swab16_high)

lemma enable_not_heartbeat: "VIRTIO_WATCHDOG_ENABLE \<noteq> VIRTIO_WATCHDOG_HEARTBEAT"
  by (simp add: VIRTIO_WATCHDOG_ENABLE_def VIRTIO_WATCHDOG_HEARTBEAT_def)

lemma disable_not_heartbeat: "VIRTIO_WATCHDOG_DISABLE \<noteq> VIRTIO_WATCHDOG_HEARTBEAT"
  by (simp add: VIRTIO_WATCHDOG_DISABLE_def VIRTIO_WATCHDOG_HEARTBEAT_def)

text \<open>A heartbeat is written, added if a slot is free, and kicked, and nothing more.\<close>

lemma send_event_heartbeat:
  "send_event vwdt VIRTIO_WATCHDOG_HEARTBEAT h =
     Some (vwdt\<lparr>vq := submitted vwdt VIRTIO_WATCHDOG_HEARTBEAT\<rparr>, h)"
  by (simp add: send_event_def submitted_def Let_def)

text \<open>Every other event is written, added if a slot is free, kicked, and waited for.\<close>

lemma send_event_sync:
  "type \<noteq> VIRTIO_WATCHDOG_HEARTBEAT \<Longrightarrow>
   send_event vwdt type h =
     map_option (\<lambda>(q, h'). (vwdt\<lparr>vq := q\<rparr>, h')) (wait_event (submitted vwdt type) h)"
  by (simp add: send_event_def submitted_def Let_def split: option.splits)

lemma submitted_used: "used (submitted vwdt type) = used (vq vwdt)"
  by (simp add: submitted_def queue_defs)

lemma submitted_avail:
  "avail (submitted vwdt type) =
     (if in_flight (vq vwdt) < slots (vq vwdt) then avail (vq vwdt) @ [evt_addr]
      else avail (vq vwdt))"
  by (simp add: submitted_def queue_defs)

lemma submitted_rest:
  "kicks (submitted vwdt type) = Suc (kicks (vq vwdt))"
  "more_slots (submitted vwdt type) = more_slots (vq vwdt)"
  "seen (submitted vwdt type) = seen (vq vwdt)"
  "mem (submitted vwdt type) =
     (mem (vq vwdt))(evt_addr := virtio_watchdog_event (vdev vwdt) type)"
  by (simp_all add: submitted_def queue_defs)

text \<open>With nothing to reclaim, something is outstanding after the submission, added or not.\<close>

lemma submitted_not_empty:
  "used (vq vwdt) = [] \<Longrightarrow> avail (submitted vwdt type) \<noteq> []"
  by (auto simp add: submitted_avail in_flight_def slots_def)

lemma host_consume_nothing: "n = 0 \<or> avail q = [] \<Longrightarrow> host_consume n q = q"
  by (auto simp add: host_consume_def)

text \<open>
  The wait never ends exactly when there is nothing to reclaim and the remote side
  never returns a buffer: nothing is outstanding, or every step of it consumes nothing.
\<close>

lemma wait_event_None_iff:
  "wait_event q h = None \<longleftrightarrow> used q = [] \<and> (avail q = [] \<or> (\<forall>n\<in>set h. n = 0))"
proof (induction h arbitrary: q)
  case Nil
  show ?case by (simp add: virtqueue_get_buf_def split: list.splits)
next
  case (Cons n h)
  show ?case
  proof (cases "used q")
    case Nil
    show ?thesis
    proof (cases "n = 0 \<or> avail q = []")
      case True
      then have "host_consume n q = q" by (rule host_consume_nothing)
      with Cons Nil True show ?thesis
        by (auto simp: virtqueue_get_buf_def)
    next
      case False
      then have "used (host_consume n q) \<noteq> []"
        by (simp add: host_consume_def)
      with Cons Nil False show ?thesis
        by (auto simp: virtqueue_get_buf_def)
    qed
  next
    case (Cons b bs)
    then show ?thesis by (simp add: virtqueue_get_buf_def)
  qed
qed

lemma send_event_sync_None_iff:
  assumes "type \<noteq> VIRTIO_WATCHDOG_HEARTBEAT"
  shows "send_event vwdt type h = None \<longleftrightarrow> used (vq vwdt) = [] \<and> (\<forall>n\<in>set h. n = 0)"
  using submitted_not_empty [of vwdt type]
  by (auto simp add: send_event_sync [OF assms] wait_event_None_iff submitted_used)

text \<open>
  A wait on a queue with one outstanding buffer and nothing to reclaim ends with the
  first step of the remote side that consumes something: the remote side reads the
  buffer as it then is, and the wait reclaims it.
\<close>

lemma wait_event_single:
  "avail q = [b] \<Longrightarrow> used q = [] \<Longrightarrow>
   wait_event q h =
     (case dropWhile (\<lambda>n. n = 0) h of
        [] \<Rightarrow> None
      | n # h' \<Rightarrow> Some (q\<lparr>avail := [], used := [], seen := seen q @ [mem q b]\<rparr>, h'))"
proof (induction h)
  case Nil
  then show ?case by (simp add: virtqueue_get_buf_def)
next
  case (Cons n h)
  show ?case
  proof (cases "n = 0")
    case True
    then have "host_consume n q = q" by (simp add: host_consume_nothing)
    with Cons True show ?thesis by (simp add: virtqueue_get_buf_def)
  next
    case False
    with Cons.prems
    have "host_consume n q = q\<lparr>avail := [], used := [b], seen := seen q @ [mem q b]\<rparr>"
      by (cases n) (simp_all add: host_consume_def)
    with Cons.prems False show ?thesis
      by (cases h) (simp_all add: virtqueue_get_buf_def)
  qed
qed

lemma in_flight_host_consume: "in_flight (host_consume n q) = in_flight q"
  by (simp add: host_consume_def in_flight_def min_def)

text \<open>What a wait leaves alone, and that it lets no more be in flight.\<close>

lemma wait_event_frame:
  "wait_event q h = Some (q', h') \<Longrightarrow>
   more_slots q' = more_slots q \<and> mem q' = mem q \<and> kicks q' = kicks q \<and>
   in_flight q' \<le> in_flight q"
proof (induction h arbitrary: q)
  case Nil
  then show ?case
    by (auto simp add: virtqueue_get_buf_def in_flight_def split: list.splits)
next
  case (Cons n h)
  show ?case
  proof (cases "used q")
    case Nil
    with Cons.prems have "wait_event (host_consume n q) h = Some (q', h')"
      by (simp add: virtqueue_get_buf_def)
    from Cons.IH [OF this] show ?thesis
      by (simp add: in_flight_host_consume) (simp add: host_consume_def)
  next
    case (Cons b bs)
    with Cons.prems show ?thesis
      by (auto simp add: virtqueue_get_buf_def in_flight_def)
  qed
qed

text \<open>A submission never takes more slots than the queue has.\<close>

lemma in_flight_submitted:
  "in_flight (vq vwdt) \<le> slots (vq vwdt) \<Longrightarrow>
   in_flight (submitted vwdt type) \<le> slots (submitted vwdt type)"
  by (simp add: in_flight_def slots_def submitted_avail submitted_used submitted_rest)

text \<open>
  No event touches the session's \<open>timeout\<close>, its \<open>wdd\<close>, the feature bit and the byte
  order of its device, or the size of its queue, and none takes more slots than the
  queue has.
\<close>

lemma send_event_frame:
  assumes "send_event vwdt type h = Some (vwdt', h')"
  shows "timeout vwdt' = timeout vwdt \<and> wdd vwdt' = wdd vwdt \<and> vdev vwdt' = vdev vwdt \<and>
     more_slots (vq vwdt') = more_slots (vq vwdt) \<and>
     (in_flight (vq vwdt) \<le> slots (vq vwdt) \<longrightarrow> in_flight (vq vwdt') \<le> slots (vq vwdt'))"
proof (cases "type = VIRTIO_WATCHDOG_HEARTBEAT")
  case True
  with assms in_flight_submitted [of vwdt type] show ?thesis
    by (auto simp add: send_event_heartbeat submitted_rest slots_def)
next
  case False
  with assms obtain q where w: "wait_event (submitted vwdt type) h = Some (q, h')"
    and v: "vwdt' = vwdt\<lparr>vq := q\<rparr>"
    by (auto simp add: send_event_sync)
  from wait_event_frame [OF w] in_flight_submitted [of vwdt type] v show ?thesis
    by (auto simp add: submitted_rest slots_def)
qed

lemma run_event_frame:
  assumes "run_event e vwdt h = Some (vwdt', h')"
  shows "timeout vwdt' = timeout vwdt \<and> wdd vwdt' = wdd vwdt \<and>
     version_1 (vdev vwdt') = version_1 (vdev vwdt) \<and>
     big_endian_cpu (vdev vwdt') = big_endian_cpu (vdev vwdt) \<and>
     more_slots (vq vwdt') = more_slots (vq vwdt) \<and>
     (in_flight (vq vwdt) \<le> slots (vq vwdt) \<longrightarrow> in_flight (vq vwdt') \<le> slots (vq vwdt'))"
proof (cases e)
  case Call_start
  with assms have "send_event vwdt VIRTIO_WATCHDOG_ENABLE h = Some (vwdt', h')"
    by (auto simp add: virtwdt_start_def split: option.splits)
  from send_event_frame [OF this] show ?thesis by simp
next
  case Call_stop
  with assms have "send_event vwdt VIRTIO_WATCHDOG_DISABLE h = Some (vwdt', h')"
    by (auto simp add: virtwdt_stop_def split: option.splits)
  from send_event_frame [OF this] show ?thesis by simp
next
  case Call_ping
  with assms have "send_event vwdt VIRTIO_WATCHDOG_HEARTBEAT h = Some (vwdt', h')"
    by (auto simp add: virtwdt_ping_def split: option.splits)
  from send_event_frame [OF this] show ?thesis by simp
next
  case (Call_set_timeout t)
  with assms show ?thesis
    by (auto simp add: virtwdt_set_timeout_def virtio_cwrite_timeout_def)
next
  case (Host_consumes n)
  with assms show ?thesis
    by (auto simp add: in_flight_host_consume slots_def) (simp_all add: host_consume_def)
next
  case (Stack_reused bytes)
  with assms show ?thesis by (auto simp add: in_flight_def slots_def)
qed

lemma run_events_frame:
  "run_events es vwdt h = Some (vwdt', h') \<Longrightarrow>
   timeout vwdt' = timeout vwdt \<and> wdd vwdt' = wdd vwdt \<and>
     version_1 (vdev vwdt') = version_1 (vdev vwdt) \<and>
     big_endian_cpu (vdev vwdt') = big_endian_cpu (vdev vwdt) \<and>
     more_slots (vq vwdt') = more_slots (vq vwdt) \<and>
     (in_flight (vq vwdt) \<le> slots (vq vwdt) \<longrightarrow> in_flight (vq vwdt') \<le> slots (vq vwdt'))"
proof (induction es arbitrary: vwdt h)
  case Nil
  then show ?case by simp
next
  case (Cons e es)
  from Cons.prems obtain v1 h1 where
    e: "run_event e vwdt h = Some (v1, h1)" and es: "run_events es v1 h1 = Some (vwdt', h')"
    by (auto split: option.splits)
  from run_event_frame [OF e] Cons.IH [OF es] show ?case by simp
qed

lemma one_le_word: "p \<noteq> 0 \<Longrightarrow> (1 :: u32) \<le> p"
  by (simp add: word_le_nat_alt Suc_le_eq unat_gt_0)

text \<open>The default resolution on the bounds the driver sets.\<close>

lemma watchdog_init_timeout_driver:
  assumes "max_hw_heartbeat_ms w = 0"
  shows "wdd_timeout (watchdog_init_timeout
       (w\<lparr>min_timeout := 1, max_timeout := 600, wdd_timeout := 30\<rparr>) p) =
     (if 1 \<le> p \<and> p \<le> 600 then p else 30)"
proof -
  have "\<not> 4294967 < p" if "p \<le> 600"
  proof
    assume "4294967 < p"
    from this that have "(4294967 :: u32) < 600" by (rule less_le_trans)
    then show False by simp
  qed
  then show ?thesis
    using one_le_word [of p] assms
    by (auto simp add: watchdog_init_timeout_def watchdog_check_min_max_timeout_def
        watchdog_timeout_invalid_def Let_def not_less)
qed

text \<open>What a successful attach says of its inputs and of the session it returns.\<close>

lemma probe_success:
  assumes "session (virtwdt_probe env dev) = Some vwdt"
  shows "version_1 dev \<and> config_get dev \<and> kzalloc_ok env \<and> find_vq_err env = None \<and>
     register_err env = 0 \<and> ret (virtwdt_probe env dev) = 0 \<and>
     vdev vwdt = dev \<and> vq vwdt = empty_vq (vq_more_slots env) \<and> timeout vwdt = 30 \<and>
     min_timeout (wdd vwdt) = 1 \<and> max_timeout (wdd vwdt) = 600 \<and>
     wdd_timeout (wdd vwdt) =
       wdd_timeout (watchdog_init_timeout
         ((wdd (kzalloc_virtio_wdt dev))\<lparr>min_timeout := 1, max_timeout := 600, wdd_timeout := 30\<rparr>)
         (param_timeout env))"
  using assms
  by (auto simp add: virtwdt_probe_def virtwdt_init_vq_def ENOMEM_def Let_def
      watchdog_set_nowayout_def watchdog_stop_on_reboot_def watchdog_stop_on_unregister_def
      VIRTIO_WATCHDOG_HEARTBEAT_TIMEOUT_def kzalloc_virtio_wdt_def
      VIRTIO_WATCHDOG_HEARTBEAT_TIMEOUT_MIN_def VIRTIO_WATCHDOG_HEARTBEAT_TIMEOUT_MAX_def
      watchdog_init_timeout_def watchdog_check_min_max_timeout_def
      split: if_splits option.splits)

lemma probe_session_wdd_timeout:
  assumes "session (virtwdt_probe env dev) = Some vwdt"
  shows "wdd_timeout (wdd vwdt) =
      (if 1 \<le> param_timeout env \<and> param_timeout env \<le> 600 then param_timeout env else 30)"
proof -
  have "max_hw_heartbeat_ms (wdd (kzalloc_virtio_wdt dev)) = 0"
    by (simp add: kzalloc_virtio_wdt_def)
  from watchdog_init_timeout_driver [OF this] probe_success [OF assms]
  show ?thesis by simp
qed

lemma probe_900:
  "session (virtwdt_probe (example_env\<lparr>param_timeout := 900\<rparr>) (example_device False)) =
     Some example_session"
  by (simp add: probe_defs example_defs Let_def)

lemma probe_45:
  "session (virtwdt_probe (example_env\<lparr>param_timeout := 45\<rparr>) (example_device False)) =
     Some (example_session\<lparr>wdd := (wdd example_session)\<lparr>wdd_timeout := 45\<rparr>\<rparr>)"
  by (simp add: probe_defs example_defs Let_def)

lemmas run_defs = virtwdt_ping_def virtwdt_start_def virtwdt_stop_def send_event_def Let_def
  virtwdt_set_timeout_def virtio_cwrite_timeout_def queue_defs
  example_session_def empty_vq_def example_device_def virtio_watchdog_event_le le16_bytes_def
  VIRTIO_WATCHDOG_HEARTBEAT_def VIRTIO_WATCHDOG_ENABLE_def VIRTIO_WATCHDOG_DISABLE_def
  outstanding_def outstanding_bytes_def evt_addr_def

lemma example_run:
  "run_events [Call_ping, Call_set_timeout 900, Host_consumes 1, Call_start, Call_stop]
     example_session [1] =
   Some (example_session\<lparr>vdev := (example_device False)\<lparr>config_timeout := 900\<rparr>,
           vq := \<lparr>avail = [evt_addr], used = [], kicks = 3, more_slots = 1,
                  mem = (\<lambda>_. [])(evt_addr := [2, 0]), seen = [[0, 0], [2, 0]]\<rparr>\<rparr>, [])"
  by (simp add: run_defs)


text \<open>
  On a queue with nothing outstanding and nothing to reclaim, \<open>virtwdt_start\<close> returns
  with the first step of the remote side that consumes its buffer, and not before; the
  remote side has then read the ENABLE event.
\<close>

lemma start_on_empty_queue:
  assumes "avail (vq vwdt) = []" and "used (vq vwdt) = []"
  shows "virtwdt_start vwdt h =
     (case dropWhile (\<lambda>n. n = 0) h of
        [] \<Rightarrow> None
      | n # h' \<Rightarrow>
          Some (0, vwdt\<lparr>vq := (vq vwdt)
                  \<lparr>kicks := Suc (kicks (vq vwdt)),
                   mem := (mem (vq vwdt))
                     (evt_addr := virtio_watchdog_event (vdev vwdt) VIRTIO_WATCHDOG_ENABLE),
                   seen := seen (vq vwdt) @
                     [virtio_watchdog_event (vdev vwdt) VIRTIO_WATCHDOG_ENABLE]\<rparr>\<rparr>, h'))"
proof -
  let ?q = "submitted vwdt VIRTIO_WATCHDOG_ENABLE"
  have a: "avail ?q = [evt_addr]" and u: "used ?q = []"
    using assms by (simp_all add: submitted_avail submitted_used in_flight_def slots_def)
  have q: "?q\<lparr>avail := [], used := [], seen := seen ?q @ [mem ?q evt_addr]\<rparr> =
      (vq vwdt)\<lparr>kicks := Suc (kicks (vq vwdt)),
        mem := (mem (vq vwdt))
          (evt_addr := virtio_watchdog_event (vdev vwdt) VIRTIO_WATCHDOG_ENABLE),
        seen := seen (vq vwdt) @
          [virtio_watchdog_event (vdev vwdt) VIRTIO_WATCHDOG_ENABLE]\<rparr>"
    using assms by (simp add: submitted_def queue_defs)
  have w: "wait_event ?q h =
     (case dropWhile (\<lambda>n. n = 0) h of
        [] \<Rightarrow> None
      | n # h' \<Rightarrow>
          Some ((vq vwdt)\<lparr>kicks := Suc (kicks (vq vwdt)),
                  mem := (mem (vq vwdt))
                    (evt_addr := virtio_watchdog_event (vdev vwdt) VIRTIO_WATCHDOG_ENABLE),
                  seen := seen (vq vwdt) @
                    [virtio_watchdog_event (vdev vwdt) VIRTIO_WATCHDOG_ENABLE]\<rparr>, h'))"
    using wait_event_single [OF a u] by (simp only: q)
  show ?thesis
    unfolding virtwdt_start_def send_event_sync [OF enable_not_heartbeat] w
    by (cases "dropWhile (\<lambda>n. n = 0) h") (simp_all del: dropWhile_eq_Nil_conv)
qed



text \<open>When start and stop never return.\<close>

lemma sync_result:
  assumes "type \<noteq> VIRTIO_WATCHDOG_HEARTBEAT"
  shows "(case send_event vwdt type h of None \<Rightarrow> None | Some (v, h') \<Rightarrow> Some (0 :: int, v, h')) = None
           \<longleftrightarrow> used (vq vwdt) = [] \<and> (\<forall>n\<in>set h. n = 0)"
  using send_event_sync_None_iff [OF assms, of vwdt h]
  by (auto split: option.splits)

lemma virtwdt_start_None_iff:
  "virtwdt_start vwdt h = None \<longleftrightarrow> used (vq vwdt) = [] \<and> (\<forall>n\<in>set h. n = 0)"
  unfolding virtwdt_start_def by (rule sync_result [OF enable_not_heartbeat])

lemma virtwdt_stop_None_iff:
  "virtwdt_stop vwdt h = None \<longleftrightarrow> used (vq vwdt) = [] \<and> (\<forall>n\<in>set h. n = 0)"
  unfolding virtwdt_stop_def by (rule sync_result [OF disable_not_heartbeat])

lemma example_start:
  "virtwdt_start example_session [0, 1] =
     Some (0, example_session\<lparr>vq := \<lparr>avail = [], used = [], kicks = 1, more_slots = 1,
             mem = (\<lambda>_. [])(evt_addr := [1, 0]), seen = [[1, 0]]\<rparr>\<rparr>, [])"
  by (simp add: run_defs)



subsection \<open>The claims\<close>




text \<open>
  C2: start and stop do not return until the buffer they submitted has been reclaimed.
  The wake predicate is satisfied by any returned buffer. After a ping whose buffer the
  remote side has returned (a ping never reclaims), \<open>virtwdt_start\<close> returns 0 at once,
  with the remote side idle during the whole call, and its own ENABLE buffer is still
  outstanding: what the wait reclaimed is the heartbeat, the only event the remote side
  has read.
\<close>

theorem start_returns_on_stale_heartbeat:
  "\<exists>s1 s2. run_events [Call_ping, Host_consumes 1] example_session [] = Some (s1, []) \<and>
     virtwdt_start s1 [] = Some (0, s2, []) \<and>
     avail (vq s2) = [evt_addr] \<and>
     outstanding_bytes (vq s2) = [le16_bytes VIRTIO_WATCHDOG_ENABLE] \<and> used (vq s2) = [] \<and>
     seen (vq s2) = [le16_bytes VIRTIO_WATCHDOG_HEARTBEAT]"
  by (simp add: run_defs)

text \<open>
  C3: every call of ping submits exactly one HEARTBEAT message, returns without waiting,
  and returns 0. It returns 0 without waiting, but it does not always submit: a ping
  never reclaims its buffer, so on a queue of two slots the slots are taken after two
  pings, even when the remote side has consumed both; the third ping returns 0 with
  nothing added, and the remote side, run again, has no third heartbeat to read.
\<close>

theorem third_ping_submits_nothing:
  "\<exists>s2 s3 s4.
     run_events [Call_ping, Call_ping, Host_consumes 2] example_session [] = Some (s2, []) \<and>
     seen (vq s2) = [le16_bytes VIRTIO_WATCHDOG_HEARTBEAT, le16_bytes VIRTIO_WATCHDOG_HEARTBEAT] \<and>
     virtwdt_ping s2 [] = Some (0, s3, []) \<and>
     avail (vq s3) = avail (vq s2) \<and> outstanding s3 = 0 \<and> kicks (vq s3) = 3 \<and>
     run_events [Host_consumes 1] s3 [] = Some (s4, []) \<and>
     seen (vq s4) = seen (vq s2)"
  by (simp add: run_defs)

text \<open>
  C4: set_timeout pushes no message onto the transport queue, writes the new value
  directly to the device's configuration channel, and updates the session's cached
  timeout to the new value under the access lock. The last part fails: the cached
  \<open>timeout\<close> keeps the 30 of the attach when 60 is set.
\<close>

theorem set_timeout_leaves_cached_timeout:
  "timeout (snd (virtwdt_set_timeout example_session 60)) = 30 \<and>
   timeout (snd (virtwdt_set_timeout example_session 60)) \<noteq> 60"
  by (simp add: virtwdt_set_timeout_def example_session_def)

text \<open>
  C4, as amended: set_timeout pushes no message onto the transport queue (the queue is
  as it was), writes the new value directly to the device's configuration channel, and
  returns 0; it changes nothing else of the session: the cached \<open>timeout\<close> and the
  \<open>wdd\<close> keep their values.
\<close>

theorem virtwdt_set_timeout_writes_config_only:
  "virtwdt_set_timeout vwdt t = (0, vwdt\<lparr>vdev := (vdev vwdt)\<lparr>config_timeout := t\<rparr>\<rparr>) \<and>
   config_timeout (vdev (snd (virtwdt_set_timeout vwdt t))) = t \<and>
   vq (snd (virtwdt_set_timeout vwdt t)) = vq vwdt \<and>
   timeout (snd (virtwdt_set_timeout vwdt t)) = timeout vwdt \<and>
   wdd (snd (virtwdt_set_timeout vwdt t)) = wdd vwdt"
  by (simp add: virtwdt_set_timeout_def virtio_cwrite_timeout_def)

theorem virtwdt_set_timeout_witness:
  "virtwdt_set_timeout example_session 60 =
     (0, example_session\<lparr>vdev := (example_device False)\<lparr>config_timeout := 60\<rparr>\<rparr>)"
  using virtwdt_set_timeout_writes_config_only [of example_session 60]
  by (simp add: example_session_def)

text \<open>
  C5: set_timeout only commits a value within [1, 600] to the device, and the default
  resolution clamps a supplied default to [1, 600], with 30 when none is given. The
  default resolution does not clamp: a supplied default of 900 is refused and the 30 of
  the driver is kept, where the clamp of the spec gives 600.
\<close>

theorem default_900_is_not_clamped:
  "\<exists>s. session (virtwdt_probe (example_env\<lparr>param_timeout := 900\<rparr>) (example_device False)) =
       Some s \<and>
     wdd_timeout (wdd s) = 30 \<and> spec_default_timeout 900 = 600"
  by (simp add: probe_900 example_session_def spec_default_timeout_def
      VIRTIO_WATCHDOG_HEARTBEAT_TIMEOUT_def
      VIRTIO_WATCHDOG_HEARTBEAT_TIMEOUT_MIN_def VIRTIO_WATCHDOG_HEARTBEAT_TIMEOUT_MAX_def)

text \<open>
  C5, as amended: set_timeout commits to the device the value it is given, which its
  caller takes from between the \<open>min_timeout\<close> and \<open>max_timeout\<close> of the session, 1
  and 600 since the attach: a value within [1, 600]. The default resolution takes a
  supplied default that lies within [1, 600] and falls back to 30 when none is given
  or when the one given lies outside; the resolved timeout is always within [1, 600].
\<close>

theorem set_timeout_within_bounds_and_default:
  assumes "session (virtwdt_probe env dev) = Some s0"
    and "run_events es s0 h = Some (vwdt, h')"
  shows "config_timeout (vdev (snd (virtwdt_set_timeout vwdt t))) = t \<and>
     (min_timeout (wdd vwdt) \<le> t \<and> t \<le> max_timeout (wdd vwdt) \<longrightarrow>
        VIRTIO_WATCHDOG_HEARTBEAT_TIMEOUT_MIN
          \<le> config_timeout (vdev (snd (virtwdt_set_timeout vwdt t))) \<and>
        config_timeout (vdev (snd (virtwdt_set_timeout vwdt t)))
          \<le> VIRTIO_WATCHDOG_HEARTBEAT_TIMEOUT_MAX) \<and>
     min_timeout (wdd vwdt) = VIRTIO_WATCHDOG_HEARTBEAT_TIMEOUT_MIN \<and>
     max_timeout (wdd vwdt) = VIRTIO_WATCHDOG_HEARTBEAT_TIMEOUT_MAX \<and>
     VIRTIO_WATCHDOG_HEARTBEAT_TIMEOUT_MIN \<le> wdd_timeout (wdd vwdt) \<and>
     wdd_timeout (wdd vwdt) \<le> VIRTIO_WATCHDOG_HEARTBEAT_TIMEOUT_MAX \<and>
     wdd_timeout (wdd vwdt) =
       (if VIRTIO_WATCHDOG_HEARTBEAT_TIMEOUT_MIN \<le> param_timeout env \<and>
           param_timeout env \<le> VIRTIO_WATCHDOG_HEARTBEAT_TIMEOUT_MAX
        then param_timeout env else VIRTIO_WATCHDOG_HEARTBEAT_TIMEOUT)"
proof -
  have c: "config_timeout (vdev (snd (virtwdt_set_timeout vwdt t))) = t"
    by (simp add: virtwdt_set_timeout_def virtio_cwrite_timeout_def)
  have w: "wdd vwdt = wdd s0"
    using run_events_frame [OF assms(2)] by simp
  have b: "min_timeout (wdd s0) = 1" "max_timeout (wdd s0) = 600"
    using probe_success [OF assms(1)] by simp_all
  note d = probe_session_wdd_timeout [OF assms(1)]
  show ?thesis
    unfolding c w b d VIRTIO_WATCHDOG_HEARTBEAT_TIMEOUT_def
      VIRTIO_WATCHDOG_HEARTBEAT_TIMEOUT_MIN_def VIRTIO_WATCHDOG_HEARTBEAT_TIMEOUT_MAX_def
    by simp
qed

theorem set_timeout_within_bounds_witness:
  "session (virtwdt_probe (example_env\<lparr>param_timeout := 45\<rparr>) (example_device False)) =
     Some (example_session\<lparr>wdd := (wdd example_session)\<lparr>wdd_timeout := 45\<rparr>\<rparr>) \<and>
   config_timeout (vdev (snd (virtwdt_set_timeout
     (example_session\<lparr>wdd := (wdd example_session)\<lparr>wdd_timeout := 45\<rparr>\<rparr>) 600))) = 600 \<and>
   wdd_timeout (wdd (example_session\<lparr>wdd := (wdd example_session)\<lparr>wdd_timeout := 45\<rparr>\<rparr>)) = 45"
proof -
  have r: "run_events [] s [] = Some (s, [])" for s by simp
  from set_timeout_within_bounds_and_default [OF probe_45 r, of 600] probe_45
  show ?thesis by simp
qed

text \<open>
  C6: once the attach has succeeded, the session's \<open>timeout\<close> is 30, the default, and
  so within [1, 600], and it stays so through every sequence of start, stop, ping and
  set_timeout calls, with the remote side acting in between. No operation writes it, nor
  the \<open>wdd\<close> with its bounds 1 and 600 and the timeout the attach has resolved.
\<close>

theorem session_timeout_invariant:
  assumes "session (virtwdt_probe env dev) = Some vwdt"
    and "run_events es vwdt h = Some (vwdt', h')"
  shows "timeout vwdt' = VIRTIO_WATCHDOG_HEARTBEAT_TIMEOUT \<and>
     VIRTIO_WATCHDOG_HEARTBEAT_TIMEOUT_MIN \<le> timeout vwdt' \<and>
     timeout vwdt' \<le> VIRTIO_WATCHDOG_HEARTBEAT_TIMEOUT_MAX \<and>
     wdd vwdt' = wdd vwdt \<and>
     min_timeout (wdd vwdt') = VIRTIO_WATCHDOG_HEARTBEAT_TIMEOUT_MIN \<and>
     max_timeout (wdd vwdt') = VIRTIO_WATCHDOG_HEARTBEAT_TIMEOUT_MAX"
  using run_events_frame [OF assms(2)] probe_success [OF assms(1)]
  by (simp add: VIRTIO_WATCHDOG_HEARTBEAT_TIMEOUT_def
      VIRTIO_WATCHDOG_HEARTBEAT_TIMEOUT_MIN_def VIRTIO_WATCHDOG_HEARTBEAT_TIMEOUT_MAX_def)

theorem session_timeout_invariant_witness:
  "session (virtwdt_probe example_env (example_device False)) = Some example_session \<and>
   run_events [Call_ping, Call_set_timeout 900, Host_consumes 1, Call_start, Call_stop]
     example_session [1] =
   Some (example_session\<lparr>vdev := (example_device False)\<lparr>config_timeout := 900\<rparr>,
           vq := \<lparr>avail = [evt_addr], used = [], kicks = 3, more_slots = 1,
                  mem = (\<lambda>_. [])(evt_addr := [2, 0]), seen = [[0, 0], [2, 0]]\<rparr>\<rparr>, []) \<and>
   timeout (example_session\<lparr>vdev := (example_device False)\<lparr>config_timeout := 900\<rparr>,
           vq := \<lparr>avail = [evt_addr], used = [], kicks = 3, more_slots = 1,
                  mem = (\<lambda>_. [])(evt_addr := [2, 0]), seen = [[0, 0], [2, 0]]\<rparr>\<rparr>) = 30"
proof -
  note inv = session_timeout_invariant [OF example_probe_le example_run]
  then show ?thesis
    using example_probe_le example_run
    by (simp only: VIRTIO_WATCHDOG_HEARTBEAT_TIMEOUT_def simp_thms)
qed



text \<open>
  C8: every message that start, stop or ping submits reaches the wire as its type tag,
  two bytes in little-endian order. What is queued is the address of \<open>evt\<close>, a local
  variable of \<open>send_event\<close>, and a ping returns with that buffer outstanding. After a
  ping and a start, the remote side, consuming both buffers, reads the ENABLE tag
  twice: the heartbeat reaches the wire as 1, 0 and not as 0, 0.
\<close>

theorem heartbeat_read_as_enable:
  "le16_bytes VIRTIO_WATCHDOG_HEARTBEAT = [0, 0] \<and>
   le16_bytes VIRTIO_WATCHDOG_ENABLE = [1, 0] \<and>
   (\<exists>s. run_events [Call_ping, Call_start] example_session [2] = Some (s, []) \<and>
      seen (vq s) = [[1, 0], [1, 0]])"
  by (simp add: run_defs)

text \<open>
  C9: each of start, stop, ping and set_timeout returns 0 for every input and every
  behaviour of the transport. For start and stop this fails where the remote side
  returns no buffer: the call does not return at all.
\<close>

theorem start_never_returns_on_silent_host:
  "virtwdt_start example_session [] = None \<and> virtwdt_stop example_session [0, 0, 0] = None"
  by (simp add: virtwdt_start_None_iff virtwdt_stop_None_iff example_session_def empty_vq_def)

text \<open>
  C9, as amended: ping and set_timeout return 0 for every input and every behaviour of
  the transport; start and stop never produce a failure code: when they return, they
  return 0, and they fail to return exactly when there is no buffer to reclaim and the
  remote side never returns one.
\<close>

theorem operations_return_zero_when_they_return:
  "virtwdt_ping vwdt h \<noteq> None \<and> fst (the (virtwdt_ping vwdt h)) = 0 \<and>
   fst (virtwdt_set_timeout vwdt t) = 0 \<and>
   (virtwdt_start vwdt h = None \<or> (\<exists>vwdt' h'. virtwdt_start vwdt h = Some (0, vwdt', h'))) \<and>
   (virtwdt_start vwdt h = None \<longleftrightarrow> used (vq vwdt) = [] \<and> (\<forall>n\<in>set h. n = 0)) \<and>
   (virtwdt_stop vwdt h = None \<or> (\<exists>vwdt' h'. virtwdt_stop vwdt h = Some (0, vwdt', h'))) \<and>
   (virtwdt_stop vwdt h = None \<longleftrightarrow> used (vq vwdt) = [] \<and> (\<forall>n\<in>set h. n = 0))"
proof (intro conjI)
  show "virtwdt_ping vwdt h \<noteq> None" "fst (the (virtwdt_ping vwdt h)) = 0"
    by (simp_all add: virtwdt_ping_def send_event_heartbeat)
  show "fst (virtwdt_set_timeout vwdt t) = 0"
    by (simp add: virtwdt_set_timeout_def)
  show "virtwdt_start vwdt h = None \<or> (\<exists>vwdt' h'. virtwdt_start vwdt h = Some (0, vwdt', h'))"
    by (auto simp add: virtwdt_start_def split: option.splits)
  show "virtwdt_stop vwdt h = None \<or> (\<exists>vwdt' h'. virtwdt_stop vwdt h = Some (0, vwdt', h'))"
    by (auto simp add: virtwdt_stop_def split: option.splits)
  show "virtwdt_start vwdt h = None \<longleftrightarrow> used (vq vwdt) = [] \<and> (\<forall>n\<in>set h. n = 0)"
    by (rule virtwdt_start_None_iff)
  show "virtwdt_stop vwdt h = None \<longleftrightarrow> used (vq vwdt) = [] \<and> (\<forall>n\<in>set h. n = 0)"
    by (rule virtwdt_stop_None_iff)
qed

theorem operations_return_zero_witness:
  "virtwdt_start example_session [0, 1] =
     Some (0, example_session\<lparr>vq := \<lparr>avail = [], used = [], kicks = 1, more_slots = 1,
             mem = (\<lambda>_. [])(evt_addr := [1, 0]), seen = [[1, 0]]\<rparr>\<rparr>, []) \<and>
   virtwdt_start example_session [0, 0] = None \<and>
   fst (virtwdt_set_timeout example_session 900) = 0"
proof -
  have "used (vq example_session) = []" by (simp add: example_session_def empty_vq_def)
  with operations_return_zero_when_they_return [of example_session "[0, 0]" 900]
  have "virtwdt_start example_session [0, 0] = None \<and>
      fst (virtwdt_set_timeout example_session 900) = 0"
    by simp
  with example_start show ?thesis by simp
qed

text \<open>
  C10: when the creation of the queue fails, \<open>virtwdt_init_vq\<close> returns \<open>-ENOMEM\<close>
  whatever error the failed queue pointer carries, and so does the attach, which then
  frees the session and returns no session.
\<close>

theorem init_vq_failure_is_ENOMEM:
  assumes "find_vq_err env = Some e"
  shows "fst (virtwdt_init_vq env vwdt) = - ENOMEM \<and>
     (version_1 dev \<and> config_get dev \<and> kzalloc_ok env \<longrightarrow>
        ret (virtwdt_probe env dev) = - ENOMEM \<and> session (virtwdt_probe env dev) = None \<and>
        log (virtwdt_probe env dev) = [Alloc_session, Free_session])"
  using assms
  by (simp add: virtwdt_init_vq_def virtwdt_probe_def ENOMEM_def Let_def)

theorem init_vq_failure_witness:
  "find_vq_err (example_env\<lparr>find_vq_err := Some (- 28)\<rparr>) = Some (- 28) \<and>
   fst (virtwdt_init_vq (example_env\<lparr>find_vq_err := Some (- 28)\<rparr>) example_session) = - 12 \<and>
   ret (virtwdt_probe (example_env\<lparr>find_vq_err := Some (- 28)\<rparr>) (example_device False)) = - 12"
  using init_vq_failure_is_ENOMEM [of "example_env\<lparr>find_vq_err := Some (- 28)\<rparr>" "- 28"
      example_session "example_device False"]
  by (simp add: example_env_def example_device_def ENOMEM_def)

end
